theory Spec2Isabelle
  imports Complex_Main "HOL-Library.Word" "HOL-Library.AList" "HOL-Library.Char_ord"
    "HOL-Library.List_Lexorder"
begin

section \<open>Go values used by the decoder\<close>

subsection \<open>float64\<close>

text \<open>
  A float64 is kept by its exact value: \<open>Finite s m e\<close> is \<open>(-1)^s * m * 2^e\<close> (the
  sign is a bit of its own, so that negative zero exists), next to the infinities and NaN.
  The operations the decoder applies to a float64 (\<open>math.Round\<close>, the conversions
  \<open>int64(x)\<close> and \<open>int(x)\<close>, and \<open>fmt.Sprintf("%.2f", x)\<close>) are exact functions of
  that value, so they are computed here on the value itself.
\<close>

datatype float64 = Finite bool nat int | Inf bool | NaN

definition float_zero :: float64 where
  "float_zero = Finite False 0 0"

fun valof :: "float64 \<Rightarrow> real" where
  "valof (Finite s m e) = (if s then - 1 else 1) * real m * 2 powi e"
| "valof (Inf s) = 0"
| "valof NaN = 0"

fun is_finite :: "float64 \<Rightarrow> bool" where
  "is_finite (Finite s m e) = True"
| "is_finite (Inf s) = False"
| "is_finite NaN = False"

text \<open>\<open>math.Round\<close>: the nearest integer, halves away from zero; the sign is kept.\<close>

definition round_half_away :: "nat \<Rightarrow> nat \<Rightarrow> nat" where
  "round_half_away m d = (if d \<le> 2 * (m mod d) then m div d + 1 else m div d)"

fun math_Round :: "float64 \<Rightarrow> float64" where
  "math_Round (Finite s m e) =
     (if 0 \<le> e then Finite s m e else Finite s (round_half_away m (2 ^ nat (- e))) 0)"
| "math_Round (Inf s) = Inf s"
| "math_Round NaN = NaN"

text \<open>
  A conversion \<open>int64(x)\<close> or \<open>int(x)\<close> drops the fraction (towards zero). Where the
  result does not fit (or \<open>x\<close> is an infinity or NaN) Go leaves the value to the
  implementation: that value is the parameter \<open>ovf\<close>. Go's \<open>int\<close> is taken as 64 bits wide.
\<close>

fun float_trunc :: "float64 \<Rightarrow> int option" where
  "float_trunc (Finite s m e) =
     (let mag = (if 0 \<le> e then int m * 2 ^ nat e else int m div 2 ^ nat (- e))
      in Some (if s then - mag else mag))"
| "float_trunc (Inf s) = None"
| "float_trunc NaN = None"

definition float_to_int :: "(float64 \<Rightarrow> 64 word) \<Rightarrow> float64 \<Rightarrow> 64 word" where
  "float_to_int ovf x =
     (case float_trunc x of
        None \<Rightarrow> ovf x
      | Some i \<Rightarrow> if - (2 ^ 63) \<le> i \<and> i < 2 ^ 63 then word_of_int i else ovf x)"

subsection \<open>fmt.Sprintf\<close>

definition digit_char :: "nat \<Rightarrow> char" where
  "digit_char d = ''0123456789'' ! d"

fun digits :: "nat \<Rightarrow> string" where
  "digits n = (if n < 10 then [digit_char n] else digits (n div 10) @ [digit_char (n mod 10)])"

declare digits.simps [simp del]

text \<open>\<open>fmt.Sprintf("%d", n)\<close> for a Go \<open>int\<close>.\<close>

definition Sprintf_d :: "64 word \<Rightarrow> string" where
  "Sprintf_d n = (if sint n < 0 then ''-'' @ digits (nat (- sint n)) else digits (nat (sint n)))"

text \<open>
  \<open>fmt.Sprintf("%.2f", x)\<close>: the exact value rounded to two decimals, halves to even
  (strconv rounds the exact decimal expansion); the sign bit is printed even when the
  digits are all zero.
\<close>

definition scaled_half_even :: "nat \<Rightarrow> int \<Rightarrow> nat" where
  "scaled_half_even n e =
     (if 0 \<le> e then n * 2 ^ nat e
      else let d = 2 ^ nat (- e); q = n div d; r = n mod d
           in if d < 2 * r \<or> (2 * r = d \<and> odd q) then q + 1 else q)"

definition Sprintf_2f :: "float64 \<Rightarrow> string" where
  "Sprintf_2f x =
     (case x of
        Finite s m e \<Rightarrow>
          (let h = scaled_half_even (m * 100) e
           in (if s then ''-'' else '''') @ digits (h div 100) @ ''.'' @
              [digit_char (h mod 100 div 10), digit_char (h mod 10)])
      | Inf s \<Rightarrow> (if s then ''-Inf'' else ''+Inf'')
      | NaN \<Rightarrow> ''NaN'')"

subsection \<open>JSON numbers\<close>

text \<open>
  encoding/json reads a number with \<open>strconv.ParseFloat\<close>: the float64 nearest to the
  decimal, halves to the even mantissa. \<open>float64_of_decimal s c x\<close> is that float64 for
  the literal \<open>(-1)^s * c * 10^x\<close>; \<open>None\<close> stands for a literal beyond the largest
  float64, which the decoder refuses.
\<close>

fun bitlen :: "nat \<Rightarrow> nat" where
  "bitlen n = (if n = 0 then 0 else Suc (bitlen (n div 2)))"

declare bitlen.simps [simp del]

definition div_half_even :: "nat \<Rightarrow> nat \<Rightarrow> nat" where
  "div_half_even n d =
     (let q = n div d; r = n mod d
      in if d < 2 * r \<or> (2 * r = d \<and> odd q) then q + 1 else q)"

definition scaled_quotient :: "nat \<Rightarrow> nat \<Rightarrow> int \<Rightarrow> nat" where
  "scaled_quotient num den e =
     (if 0 \<le> e then div_half_even num (den * 2 ^ nat e)
      else div_half_even (num * 2 ^ nat (- e)) den)"

definition exp_guess :: "nat \<Rightarrow> nat \<Rightarrow> int" where
  "exp_guess num den = int (bitlen num) - int (bitlen den) - 53"

definition below_2_53 :: "nat \<Rightarrow> nat \<Rightarrow> int \<Rightarrow> bool" where
  "below_2_53 num den e \<longleftrightarrow> num * 2 ^ nat (- e) < den * 2 ^ nat e * 2 ^ 53"

definition exp_of :: "nat \<Rightarrow> nat \<Rightarrow> int" where
  "exp_of num den =
     max (if below_2_53 num den (exp_guess num den) then exp_guess num den
          else exp_guess num den + 1) (- 1074)"

definition pack :: "bool \<Rightarrow> nat \<Rightarrow> int \<Rightarrow> float64 option" where
  "pack s m e = (if 971 < e then None else Some (Finite s m e))"

definition round_pack :: "bool \<Rightarrow> nat \<Rightarrow> int \<Rightarrow> float64 option" where
  "round_pack s m e = (if m = 2 ^ 53 then pack s (2 ^ 52) (e + 1) else pack s m e)"

definition float64_of_ratio :: "bool \<Rightarrow> nat \<Rightarrow> nat \<Rightarrow> float64 option" where
  "float64_of_ratio s num den =
     round_pack s (scaled_quotient num den (exp_of num den)) (exp_of num den)"

definition float64_of_decimal :: "bool \<Rightarrow> nat \<Rightarrow> int \<Rightarrow> float64 option" where
  "float64_of_decimal s c x =
     (if c = 0 then Some (Finite s 0 0)
      else if 0 \<le> x then float64_of_ratio s (c * 10 ^ nat x) 1
      else float64_of_ratio s c (10 ^ nat (- x)))"

section \<open>Configuration\<close>

text \<open>config.Config, and the constant \<open>DefaultBuffer\<close> of the same package.\<close>

record Config =
  Config_Dir :: string
  Listen_Address :: string
  Influx_URL :: string
  Influx_API_Path :: string
  Influx_Org :: string
  Influx_Token :: string
  Influx_Bucket :: string
  Influx_Bucket_Rapid_Wind :: string
  Buffer :: int
  Verbose :: bool
  Debug :: bool
  Raw_UDP :: bool
  Noop :: bool
  Rapid_Wind :: bool

definition DefaultBuffer :: int where
  "DefaultBuffer = 10240"

section \<open>The data point\<close>

text \<open>
  Modelled from the spec: \<open>influx.Data\<close> and \<open>influx.New\<close> (package internal/influx):
  a data point has a name, a destination bucket, a tag mapping, a field mapping and a
  timestamp in whole seconds, and \<open>New\<close> returns a point with empty tag and field
  mappings and a zero timestamp. A Go map is kept as an association list with distinct
  keys, in the order of insertion: a map literal is the list of its entries, and
  \<open>m[k] = v\<close> is \<open>AList.update k v\<close>.
\<close>

record Data =
  Name :: string
  Bucket :: string
  Tags :: "(string \<times> string) list"
  Fields :: "(string \<times> string) list"
  Timestamp :: "64 word"

definition New :: Data where
  "New = \<lparr>Name = [], Bucket = [], Tags = [], Fields = [], Timestamp = 0\<rparr>"

section \<open>The report decoder (package tempest)\<close>

datatype error =
  ErrUnmarshal
  | ErrInsufficientData nat nat
  | Wrapped string error

text \<open>\<open>errors.Is(err, ErrInsufficientData)\<close>: wrapping with \<open>%w\<close> keeps the cause.\<close>

fun is_ErrInsufficientData :: "error \<Rightarrow> bool" where
  "is_ErrInsufficientData ErrUnmarshal = False"
| "is_ErrInsufficientData (ErrInsufficientData want got) = True"
| "is_ErrInsufficientData (Wrapped msg e) = is_ErrInsufficientData e"

datatype log_entry = Printf string | Log_Debug string | Log_Info string | Log_Error string

subsection \<open>PrecipType\<close>

datatype panic_value = Panic_string string | Panic_runtime_error string

text \<open>
  \<open>PrecipType\<close> is a Go \<open>int\<close>. \<open>String\<close> indexes the slice \<open>types\<close> after comparing
  the code with its length only; an index below zero is a run-time panic in Go.
\<close>

definition types :: "string list" where
  "types = [''none'', ''rain'', ''hail'', ''rain+hail'']"

definition PrecipType_String :: "64 word \<Rightarrow> panic_value + string" where
  "PrecipType_String p =
     (if sint p < int (length types)
      then (if sint p < 0 then Inl (Panic_runtime_error ''index out of range'')
            else Inr (types ! nat (sint p)))
      else Inr ''unknown'')"

subsection \<open>Report\<close>

text \<open>
  The fields of \<open>Report\<close> that the decoder reads. \<open>Obs\<close> is the one element of the Go
  array \<open>[1][]float64\<close>; \<open>Ob\<close> is the Go array \<open>[3]float64\<close>, whose length is 3 for
  every value of the type.
\<close>

record Report =
  StationSerial :: string
  ReportType :: string
  Obs :: "float64 list"
  Ob :: "float64 \<times> float64 \<times> float64"

definition len_Ob :: "float64 \<times> float64 \<times> float64 \<Rightarrow> nat" where
  "len_Ob ob = 3"

text \<open>
  A datagram as \<open>json.Decoder.Decode\<close> sees it: either not a JSON object of the
  expected shape, or an object with its \<open>type\<close>, \<open>serial_number\<close>, \<open>obs\<close> (an array of
  arrays of numbers) and \<open>ob\<close> (an array of numbers); an absent member is the empty
  string or the empty array. Decoding a JSON array into a Go array drops the elements
  beyond the Go array's length and leaves the missing ones at zero.
\<close>

record payload =
  json_type :: string
  json_serial_number :: string
  json_obs :: "float64 list list"
  json_ob :: "float64 list"

datatype datagram = Malformed | Json payload

definition elem_or_zero :: "float64 list \<Rightarrow> nat \<Rightarrow> float64" where
  "elem_or_zero xs i = (if i < length xs then xs ! i else float_zero)"

definition json_Decode :: "datagram \<Rightarrow> error + Report" where
  "json_Decode d =
     (case d of
        Malformed \<Rightarrow> Inl ErrUnmarshal
      | Json p \<Rightarrow>
          Inr \<lparr>StationSerial = json_serial_number p,
               ReportType = json_type p,
               Obs = (case json_obs p of [] \<Rightarrow> [] | xs # rest \<Rightarrow> xs),
               Ob = (elem_or_zero (json_ob p) 0, elem_or_zero (json_ob p) 1,
                     elem_or_zero (json_ob p) 2)\<rparr>)"

subsection \<open>parseObservation\<close>

text \<open>
  What the decoder takes from outside the repository: the dew point formula of
  \<open>github.com/de-wax/go-pkg/dewpoint\<close> (its value and whether it returned an error),
  and the implementation's value of a float-to-integer conversion that does not fit.
\<close>

record platform =
  dewpoint_Calculate :: "float64 \<Rightarrow> float64 \<Rightarrow> float64 \<times> bool"
  convert_overflow :: "float64 \<Rightarrow> 64 word"

record Observation =
  Obs_Timestamp :: "64 word"
  Obs_WindLull :: float64
  Obs_WindAvg :: float64
  Obs_WindGust :: float64
  Obs_WindDirection :: "64 word"
  Obs_WindSampleInterval :: "64 word"
  Obs_StationPressure :: float64
  Obs_AirTemperature :: float64
  Obs_RelativeHumidity :: float64
  Obs_Illuminance :: "64 word"
  Obs_UV :: float64
  Obs_SolarRadiation :: "64 word"
  Obs_PrecipitationAccumulation :: float64
  Obs_PrecipitationType :: "64 word"
  Obs_StrikeAvgDistance :: "64 word"
  Obs_StrikeCount :: "64 word"
  Obs_Battery :: float64
  Obs_Interval :: "64 word"

definition round_int :: "platform \<Rightarrow> float64 \<Rightarrow> 64 word" where
  "round_int pf x = float_to_int (convert_overflow pf) (math_Round x)"

definition observation_of :: "platform \<Rightarrow> float64 list \<Rightarrow> Observation" where
  "observation_of pf data =
     \<lparr>Obs_Timestamp = float_to_int (convert_overflow pf) (data ! 0),
      Obs_WindLull = data ! 1,
      Obs_WindAvg = data ! 2,
      Obs_WindGust = data ! 3,
      Obs_WindDirection = round_int pf (data ! 4),
      Obs_WindSampleInterval = round_int pf (data ! 5),
      Obs_StationPressure = data ! 6,
      Obs_AirTemperature = data ! 7,
      Obs_RelativeHumidity = data ! 8,
      Obs_Illuminance = round_int pf (data ! 9),
      Obs_UV = data ! 10,
      Obs_SolarRadiation = round_int pf (data ! 11),
      Obs_PrecipitationAccumulation = data ! 12,
      Obs_PrecipitationType = round_int pf (data ! 13),
      Obs_StrikeAvgDistance = round_int pf (data ! 14),
      Obs_StrikeCount = round_int pf (data ! 15),
      Obs_Battery = data ! 16,
      Obs_Interval = round_int pf (data ! 17)\<rparr>"

definition observation_fields :: "Observation \<Rightarrow> float64 \<Rightarrow> (string \<times> string) list" where
  "observation_fields ob dp =
     [(''battery'', Sprintf_2f (Obs_Battery ob)),
      (''dew_point'', Sprintf_2f dp),
      (''humidity'', Sprintf_2f (Obs_RelativeHumidity ob)),
      (''illuminance'', Sprintf_d (Obs_Illuminance ob)),
      (''p'', Sprintf_2f (Obs_StationPressure ob)),
      (''precipitation'', Sprintf_2f (Obs_PrecipitationAccumulation ob)),
      (''precipitation_type'', Sprintf_d (Obs_PrecipitationType ob)),
      (''solar_radiation'', Sprintf_d (Obs_SolarRadiation ob)),
      (''strike_count'', Sprintf_d (Obs_StrikeCount ob)),
      (''strike_distance'', Sprintf_d (Obs_StrikeAvgDistance ob)),
      (''temp'', Sprintf_2f (Obs_AirTemperature ob)),
      (''uv'', Sprintf_2f (Obs_UV ob)),
      (''wind_avg'', Sprintf_2f (Obs_WindAvg ob)),
      (''wind_direction'', Sprintf_d (Obs_WindDirection ob)),
      (''wind_gust'', Sprintf_2f (Obs_WindGust ob)),
      (''wind_lull'', Sprintf_2f (Obs_WindLull ob))]"

definition parseObservation ::
  "platform \<Rightarrow> Config \<Rightarrow> Report \<Rightarrow> Data \<Rightarrow> log_entry list \<times> (error + Data)" where
  "parseObservation pf cfg report m =
     (if length (Obs report) < 18
      then ([], Inl (ErrInsufficientData 18 (length (Obs report))))
      else
        let observation = observation_of pf (Obs report);
            calc = dewpoint_Calculate pf (Obs_AirTemperature observation)
                     (Obs_RelativeHumidity observation)
        in ((if Debug cfg then [Printf ''OBS_ST''] else []) @
            (if snd calc then [Printf ''dewpoint.Calculate''] else []),
            Inr (m\<lparr>Timestamp := Obs_Timestamp observation,
                   Fields := observation_fields observation (fst calc)\<rparr>)))"

subsection \<open>parseRapidWind\<close>

record RapidWind =
  RapidWind_Timestamp :: "64 word"
  RapidWind_WindSpeed :: float64
  RapidWind_WindDirection :: "64 word"

definition rapidWind_of :: "platform \<Rightarrow> float64 \<times> float64 \<times> float64 \<Rightarrow> RapidWind" where
  "rapidWind_of pf ob =
     \<lparr>RapidWind_Timestamp = float_to_int (convert_overflow pf) (fst ob),
      RapidWind_WindSpeed = fst (snd ob),
      RapidWind_WindDirection = round_int pf (snd (snd ob))\<rparr>"

definition parseRapidWind ::
  "platform \<Rightarrow> Config \<Rightarrow> Report \<Rightarrow> Data \<Rightarrow> log_entry list \<times> (error + Data)" where
  "parseRapidWind pf cfg report m =
     (if len_Ob (Ob report) < 3
      then ([], Inl (ErrInsufficientData 3 (len_Ob (Ob report))))
      else
        let rapidWind = rapidWind_of pf (Ob report)
        in ((if Debug cfg then [Printf ''RAPID_WIND''] else []),
            Inr (m\<lparr>Timestamp := RapidWind_Timestamp rapidWind,
                   Fields := [(''rapid_wind_speed'', Sprintf_2f (RapidWind_WindSpeed rapidWind)),
                              (''rapid_wind_direction'',
                               Sprintf_d (RapidWind_WindDirection rapidWind))]\<rparr>)))"

subsection \<open>Parse\<close>

text \<open>
  \<open>Parse\<close> returns what it logged and its result: \<open>Inl\<close> an error, \<open>Inr None\<close> the
  pair \<open>(nil, nil)\<close> of a report that is not forwarded, \<open>Inr (Some m)\<close> a point.
\<close>

definition set_station :: "Report \<Rightarrow> Data \<Rightarrow> Data" where
  "set_station report m = m\<lparr>Tags := AList.update ''station'' (StationSerial report) (Tags m)\<rparr>"

definition rapid_wind_bucket :: "Config \<Rightarrow> Data \<Rightarrow> Data" where
  "rapid_wind_bucket cfg m =
     (if Influx_Bucket_Rapid_Wind cfg \<noteq> [] then m\<lparr>Bucket := Influx_Bucket_Rapid_Wind cfg\<rparr>
      else m)"

definition Parse ::
  "platform \<Rightarrow> Config \<Rightarrow> datagram \<Rightarrow> log_entry list \<times> (error + Data option)" where
  "Parse pf cfg d =
     (case json_Decode d of
        Inl e \<Rightarrow> ([], Inl e)
      | Inr report \<Rightarrow>
          let m = New\<lparr>Bucket := Influx_Bucket cfg\<rparr>
          in if ReportType report = ''obs_st'' then
               (case parseObservation pf cfg report (m\<lparr>Name := ''weather''\<rparr>) of
                  (lg, Inl e) \<Rightarrow> (lg, Inl (Wrapped ''parsing observation'' e))
                | (lg, Inr m') \<Rightarrow> (lg, Inr (Some (set_station report m'))))
             else if ReportType report = ''rapid_wind'' then
               (if \<not> Rapid_Wind cfg then ([], Inr None)
                else
                  (case parseRapidWind pf cfg report (m\<lparr>Name := ''weather''\<rparr>) of
                     (lg, Inl e) \<Rightarrow> (lg, Inl (Wrapped ''parsing rapid wind'' e))
                   | (lg, Inr m') \<Rightarrow>
                       (lg, Inr (Some (rapid_wind_bucket cfg (set_station report m'))))))
             else if ReportType report \<in> {''hub_status'', ''evt_precip'', ''evt_strike''}
             then ([], Inr None)
             else ([], Inr None))"

section \<open>Serialization\<close>

text \<open>
  Modelled from the spec: \<open>Data.Marshal\<close> (package internal/influx): one line holding
  the measurement name, the comma-joined \<open>tag=value\<close> pairs, the comma-joined
  \<open>field=value\<close> pairs sorted by key, and the timestamp, in the format
  \<open>name,tag1=v1 field1=v1,field2=v2 timestamp\<close>.
\<close>

fun pair_text :: "string \<times> string \<Rightarrow> string" where
  "pair_text (k, v) = k @ ''='' @ v"

fun comma_join :: "string list \<Rightarrow> string" where
  "comma_join [] = []"
| "comma_join [x] = x"
| "comma_join (x # y # ys) = x @ '','' @ comma_join (y # ys)"

definition Marshal :: "Data \<Rightarrow> string" where
  "Marshal m =
     Name m @ '','' @ comma_join (map pair_text (Tags m)) @ '' '' @
     comma_join (map pair_text (sort_key fst (Fields m))) @ '' '' @
     Sprintf_d (Timestamp m)"

section \<open>The packet dispatcher (package processor)\<close>

subsection \<open>The buffer pool\<close>

text \<open>
  \<open>bufferPool\<close> is a \<open>sync.Pool\<close> whose \<open>New\<close> makes a slice of
  \<open>config.DefaultBuffer\<close> bytes. Its operations are atomic, so concurrent use is a
  sequence of them. \<open>Put\<close> stores the buffer (or the pool drops it); \<open>Get\<close> hands out a
  stored buffer, or a new one: the pool may lose its content at any time.
  \<open>pool_run p ops got\<close>: from the content \<open>p\<close>, the operations \<open>ops\<close> can hand out
  the buffers \<open>got\<close>, in this order.
\<close>

type_synonym buffer = "8 word list"

definition pool_New :: buffer where
  "pool_New = replicate (nat DefaultBuffer) 0"

datatype pool_op = Get | Put buffer

inductive pool_run :: "buffer list \<Rightarrow> pool_op list \<Rightarrow> buffer list \<Rightarrow> bool" where
  run_done: "pool_run p [] []"
| run_put: "pool_run (b # p) ops got \<Longrightarrow> pool_run p (Put b # ops) got"
| run_put_dropped: "pool_run p ops got \<Longrightarrow> pool_run p (Put b # ops) got"
| run_get_stored: "b \<in> set p \<Longrightarrow> pool_run (remove1 b p) ops got \<Longrightarrow> pool_run p (Get # ops) (b # got)"
| run_get_new: "pool_run p ops got \<Longrightarrow> pool_run p (Get # ops) (pool_New # got)"

text \<open>The buffers that a sequence of operations puts back.\<close>

fun put_buffers :: "pool_op list \<Rightarrow> buffer list" where
  "put_buffers [] = []"
| "put_buffers (Get # ops) = put_buffers ops"
| "put_buffers (Put b # ops) = b # put_buffers ops"

subsection \<open>processPacket\<close>

text \<open>
  The surroundings of one dispatch unit. \<open>influxURL\<close> is the URL value shared by all
  dispatch units (its query is rewritten in place). \<open>fault\<close> gives, for each place where
  code outside this function runs, the value of a panic raised there, if any.
  \<open>lo.TryOr\<close> (github.com/samber/lo) runs a callback and returns the fallback with
  \<open>false\<close> when the callback returns an error or panics, with any value.
\<close>

record url =
  url_base :: string
  url_query :: "(string \<times> string) list"

record request =
  req_method :: string
  req_url :: url
  req_body :: string
  req_header :: "(string \<times> string) list"

datatype http_result = Response nat | Transport_error

datatype stage = In_Parse | In_Marshal | In_Do

record env =
  fault :: "stage \<Rightarrow> panic_value option"
  NewRequest_error :: "url \<Rightarrow> bool"
  client_Do :: "request \<Rightarrow> http_result"

datatype 'a attempt = Value 'a | Failed | Panicked panic_value

definition TryOr :: "'a attempt \<Rightarrow> 'a \<Rightarrow> 'a \<times> bool" where
  "TryOr callback fallback =
     (case callback of Value a \<Rightarrow> (a, True) | Failed \<Rightarrow> (fallback, False)
      | Panicked v \<Rightarrow> (fallback, False))"

text \<open>
  What one dispatch unit did: the lines logged, the requests handed to \<open>client.Do\<close>,
  the shared URL afterwards, and the panic that left the function, if one did.
\<close>

record outcome =
  out_log :: "log_entry list"
  out_sent :: "request list"
  out_url :: url
  out_panic :: "panic_value option"

definition try_Parse ::
  "platform \<Rightarrow> Config \<Rightarrow> env \<Rightarrow> datagram \<Rightarrow> log_entry list \<times> Data option attempt" where
  "try_Parse pf cfg ev d =
     (case fault ev In_Parse of
        Some v \<Rightarrow> ([], Panicked v)
      | None \<Rightarrow>
          (case Parse pf cfg d of
             (lg, Inl e) \<Rightarrow> (lg, Failed)
           | (lg, Inr r) \<Rightarrow> (lg, Value r)))"

definition try_Do :: "env \<Rightarrow> request \<Rightarrow> nat option attempt" where
  "try_Do ev rq =
     (case fault ev In_Do of
        Some v \<Rightarrow> Panicked v
      | None \<Rightarrow>
          (case client_Do ev rq of
             Transport_error \<Rightarrow> Failed
           | Response status \<Rightarrow> Value (Some status)))"

definition set_bucket :: "Data \<Rightarrow> url \<Rightarrow> url" where
  "set_bucket m u =
     (if Bucket m \<noteq> [] then u\<lparr>url_query := AList.update ''bucket'' (Bucket m) (url_query u)\<rparr>
      else u)"

definition new_request :: "Config \<Rightarrow> url \<Rightarrow> string \<Rightarrow> request" where
  "new_request cfg u line =
     \<lparr>req_method = ''POST'', req_url = u, req_body = line,
      req_header = [(''Authorization'', ''Token '' @ Influx_Token cfg),
                    (''Content-Type'', ''text/plain; charset=utf-8''),
                    (''Accept'', ''application/json'')]\<rparr>"

definition post :: "Config \<Rightarrow> env \<Rightarrow> url \<Rightarrow> string \<Rightarrow> log_entry list \<Rightarrow> outcome" where
  "post cfg ev u line lg =
     (if NewRequest_error ev u
      then \<lparr>out_log = lg @ [Log_Error ''Failed to create HTTP request''], out_sent = [],
            out_url = u, out_panic = None\<rparr>
      else if Noop cfg
      then \<lparr>out_log = lg @ [Log_Info ''NOOP mode - not posting to InfluxDB''], out_sent = [],
            out_url = u, out_panic = None\<rparr>
      else
        (case TryOr (try_Do ev (new_request cfg u line)) None of
           (Some status, True) \<Rightarrow>
             \<lparr>out_log = lg @
                (if 400 \<le> status then [Log_Error ''InfluxDB returned error status'']
                 else if Verbose cfg then [Log_Info ''Successfully posted data to InfluxDB'']
                 else []),
              out_sent = [new_request cfg u line], out_url = u, out_panic = None\<rparr>
         | _ \<Rightarrow>
             \<lparr>out_log = lg @ [Log_Error ''Failed to post data to InfluxDB''],
              out_sent = [new_request cfg u line], out_url = u, out_panic = None\<rparr>))"

definition process_point :: "Config \<Rightarrow> env \<Rightarrow> url \<Rightarrow> Data \<Rightarrow> log_entry list \<Rightarrow> outcome" where
  "process_point cfg ev u m lg =
     (if Timestamp m = 0
      then \<lparr>out_log = lg, out_sent = [], out_url = u, out_panic = None\<rparr>
      else
        (case fault ev In_Marshal of
           Some v \<Rightarrow>
             \<lparr>out_log = lg @ (if Debug cfg then [Log_Debug ''Processing InfluxData''] else []),
              out_sent = [], out_url = u, out_panic = Some v\<rparr>
         | None \<Rightarrow>
             post cfg ev (set_bucket m u) (Marshal m)
               (lg @ (if Debug cfg then [Log_Debug ''Processing InfluxData''] else []) @
                (if Verbose cfg then [Log_Info ''Posting data to InfluxDB''] else []))))"

definition processPacket_body ::
  "platform \<Rightarrow> Config \<Rightarrow> env \<Rightarrow> url \<Rightarrow> datagram \<Rightarrow> outcome" where
  "processPacket_body pf cfg ev u d =
     (case try_Parse pf cfg ev d of
        (lg, callback) \<Rightarrow>
          (case TryOr callback None of
             (Some m, True) \<Rightarrow> process_point cfg ev u m lg
           | _ \<Rightarrow> \<lparr>out_log = lg, out_sent = [], out_url = u, out_panic = None\<rparr>))"

text \<open>
  The deferred function: \<open>recover()\<close> stops the panic \<open>r\<close>, and the log call reads
  \<open>r.(string)\<close>; that type assertion is itself a run-time panic when \<open>r\<close> is not a
  string, and this second panic leaves \<open>processPacket\<close>.
\<close>

definition recover_and_log :: "outcome \<Rightarrow> outcome" where
  "recover_and_log out =
     (case out_panic out of
        None \<Rightarrow> out
      | Some (Panic_string s) \<Rightarrow>
          out\<lparr>out_log := out_log out @ [Log_Error ''Recovered from panic in packet processing''],
              out_panic := None\<rparr>
      | Some (Panic_runtime_error s) \<Rightarrow>
          out\<lparr>out_panic := Some (Panic_runtime_error ''interface conversion: not string'')\<rparr>)"

definition processPacket ::
  "platform \<Rightarrow> Config \<Rightarrow> env \<Rightarrow> url \<Rightarrow> datagram \<Rightarrow> outcome" where
  "processPacket pf cfg ev u d = recover_and_log (processPacket_body pf cfg ev u d)"

section \<open>Concrete surroundings and inputs\<close>

text \<open>
  A platform whose dew point formula returns zero without an error and whose
  out-of-range conversions give zero, and the configuration of the repository's tests
  (\<open>Buffer: 1024\<close>, \<open>Influx_Bucket: "test-bucket"\<close>).
\<close>

definition test_platform :: platform where
  "test_platform =
     \<lparr>dewpoint_Calculate = (\<lambda>t h. (float_zero, False)), convert_overflow = (\<lambda>x. 0)\<rparr>"

definition test_config :: Config where
  "test_config =
     \<lparr>Config_Dir = [], Listen_Address = '':0'',
      Influx_URL = ''http://localhost:8086/api/v2/write'', Influx_API_Path = [],
      Influx_Org = [], Influx_Token = ''test-token'', Influx_Bucket = ''test-bucket'',
      Influx_Bucket_Rapid_Wind = [], Buffer = 1024, Verbose = False, Debug = False,
      Raw_UDP = False, Noop = False, Rapid_Wind = False\<rparr>"

text \<open>
  The numbers of a JSON array, each written as a coefficient and a power of ten
  (\<open>(12, -1)\<close> is the literal 1.2), decoded as encoding/json decodes them.
\<close>

fun decode_numbers :: "(nat \<times> int) list \<Rightarrow> float64 list option" where
  "decode_numbers [] = Some []"
| "decode_numbers ((c, x) # ns) =
     (case float64_of_decimal False c x of
        None \<Rightarrow> None
      | Some f \<Rightarrow> (case decode_numbers ns of None \<Rightarrow> None | Some fs \<Rightarrow> Some (f # fs)))"

text \<open>The array [1500000000,0.5,1.2,2.0,180,3,1013.2,22.5,55.0,1000,3.1,200,0.0,0,0,0,12.6,1].\<close>

definition literal_obs :: "(nat \<times> int) list" where
  "literal_obs =
     [(1500000000, 0), (5, - 1), (12, - 1), (20, - 1), (180, 0), (3, 0), (10132, - 1),
      (225, - 1), (550, - 1), (1000, 0), (31, - 1), (200, 0), (0, - 1), (0, 0), (0, 0),
      (0, 0), (126, - 1), (1, 0)]"

definition literal_floats :: "float64 list" where
  "literal_floats =
     [Finite False 6291456000000000 (- 22), Finite False 4503599627370496 (- 53),
      Finite False 5404319552844595 (- 52), Finite False 4503599627370496 (- 51),
      Finite False 6333186975989760 (- 45), Finite False 6755399441055744 (- 51),
      Finite False 8912201450101146 (- 43), Finite False 6333186975989760 (- 48),
      Finite False 7740561859543040 (- 47), Finite False 8796093022208000 (- 43),
      Finite False 6980579422424269 (- 51), Finite False 7036874417766400 (- 45),
      Finite False 0 0, Finite False 0 0, Finite False 0 0, Finite False 0 0,
      Finite False 7093169413108531 (- 49), Finite False 4503599627370496 (- 52)]"

definition obs_st_payload :: "float64 list \<Rightarrow> payload" where
  "obs_st_payload data =
     \<lparr>json_type = ''obs_st'', json_serial_number = ''ST-00000512'', json_obs = [data],
      json_ob = []\<rparr>"

text \<open>A rapid_wind report whose \<open>ob\<close> array holds two numbers: [1500000000, 2.5].\<close>

definition short_rapid_wind :: payload where
  "short_rapid_wind =
     \<lparr>json_type = ''rapid_wind'', json_serial_number = ''ST-00000512'', json_obs = [],
      json_ob = [Finite False 1500000000 0, Finite False 5 (- 1)]\<rparr>"

definition test_url :: url where
  "test_url =
     \<lparr>url_base = ''http://localhost:8086/api/v2/write'',
      url_query = [(''org'', []), (''precision'', ''s'')]\<rparr>"

text \<open>Surroundings without a fault, where every request is built and answered 204.\<close>

definition quiet_env :: env where
  "quiet_env =
     \<lparr>fault = (\<lambda>st. None), NewRequest_error = (\<lambda>u. False), client_Do = (\<lambda>rq. Response 204)\<rparr>"

text \<open>Surroundings where one place raises a panic with the value \<open>v\<close>.\<close>

definition fault_env :: "stage \<Rightarrow> panic_value \<Rightarrow> env" where
  "fault_env place v = quiet_env\<lparr>fault := (\<lambda>st. if st = place then Some v else None)\<rparr>"

section \<open>Rounding and formatting\<close>

text \<open>
  \<open>math.Round\<close> returns an integer within one half of its argument, and
  \<open>%.2f\<close> prints a number of hundredths within half a hundredth of the value.
\<close>

lemma powi_nonneg: "0 \<le> e \<Longrightarrow> (2::real) powi e = 2 ^ nat e"
  by (simp add: power_int_def)

lemma powi_neg: "e < 0 \<Longrightarrow> (2::real) powi e = 1 / 2 ^ nat (- e)"
  by (simp add: power_int_def field_simps)

lemma real_div_mod:
  assumes "0 < d"
  shows "real m / real d = real (m div d) + real (m mod d) / real d"
proof -
  have "m = (m div d) * d + m mod d"
    by simp
  then have "real m = real ((m div d) * d + m mod d)"
    by (rule arg_cong)
  then have "real m = real (m div d) * real d + real (m mod d)"
    by (simp only: of_nat_add of_nat_mult)
  then show ?thesis
    using assms by (simp add: field_simps)
qed

lemma frac_bounds:
  assumes "0 < d"
  shows "0 \<le> real (m mod d) / real d" and "real (m mod d) / real d < 1"
    and "d \<le> 2 * (m mod d) \<Longrightarrow> 1 / 2 \<le> real (m mod d) / real d"
    and "2 * (m mod d) \<le> d \<Longrightarrow> real (m mod d) / real d \<le> 1 / 2"
proof -
  show "0 \<le> real (m mod d) / real d" by simp
  show "real (m mod d) / real d < 1" using assms by simp
  show "1 / 2 \<le> real (m mod d) / real d" if "d \<le> 2 * (m mod d)"
  proof -
    have "real d \<le> real (2 * (m mod d))"
      using that by (simp only: of_nat_le_iff)
    then show ?thesis using assms by (simp add: field_simps)
  qed
  show "real (m mod d) / real d \<le> 1 / 2" if "2 * (m mod d) \<le> d"
  proof -
    have "real (2 * (m mod d)) \<le> real d"
      using that by (simp only: of_nat_le_iff)
    then show ?thesis using assms by (simp add: field_simps)
  qed
qed

lemma round_half_away_near:
  assumes "0 < d"
  shows "\<bar>real (round_half_away m d) - real m / real d\<bar> \<le> 1 / 2"
proof (cases "d \<le> 2 * (m mod d)")
  case True
  then show ?thesis
    using frac_bounds(2,3) [OF assms, of m] real_div_mod [OF assms, of m]
    by (simp add: round_half_away_def)
next
  case False
  then have "2 * (m mod d) \<le> d" by simp
  then show ?thesis
    using False frac_bounds(1,4) [OF assms, of m] real_div_mod [OF assms, of m]
    by (simp add: round_half_away_def)
qed

lemma div_half_even_near:
  assumes "0 < d"
  shows "\<bar>real (div_half_even n d) - real n / real d\<bar> \<le> 1 / 2"
proof (cases "d < 2 * (n mod d) \<or> (2 * (n mod d) = d \<and> odd (n div d))")
  case True
  then have up: "div_half_even n d = n div d + 1"
    by (simp add: div_half_even_def Let_def)
  from True have "d \<le> 2 * (n mod d)" by auto
  then show ?thesis
    using frac_bounds(2,3) [OF assms, of n] real_div_mod [OF assms, of n]
    by (simp add: up)
next
  case False
  then have down: "div_half_even n d = n div d"
    by (simp add: div_half_even_def Let_def)
  from False have "2 * (n mod d) \<le> d" by auto
  then show ?thesis
    using frac_bounds(1,4) [OF assms, of n] real_div_mod [OF assms, of n]
    by (simp add: down)
qed

lemma scaled_half_even_div: "e < 0 \<Longrightarrow> scaled_half_even n e = div_half_even n (2 ^ nat (- e))"
  by (simp add: scaled_half_even_def div_half_even_def Let_def)

lemma scaled_half_even_near: "\<bar>real (scaled_half_even n e) - real n * 2 powi e\<bar> \<le> 1 / 2"
proof (cases "0 \<le> e")
  case True
  then show ?thesis
    by (simp add: scaled_half_even_def powi_nonneg)
next
  case False
  then have "e < 0" by simp
  then show ?thesis
    using div_half_even_near [of "2 ^ nat (- e)" n]
    by (simp add: scaled_half_even_div powi_neg)
qed


lemma math_Round_nearest:
  assumes "is_finite x"
  shows "\<exists>k::int. valof (math_Round x) = of_int k \<and> \<bar>of_int k - valof x\<bar> \<le> 1 / 2 \<and>
           float_trunc (math_Round x) = Some k"
proof (cases x)
  case (Finite s m e)
  show ?thesis
  proof (cases "0 \<le> e")
    case True
    let ?k = "(if s then - 1 else 1) * (int m * 2 ^ nat e)"
    have "valof (math_Round x) = of_int ?k"
      using True Finite by (simp add: powi_nonneg)
    moreover have "\<bar>of_int ?k - valof x\<bar> \<le> 1 / 2"
      using True Finite by (simp add: powi_nonneg)
    moreover have "float_trunc (math_Round x) = Some ?k"
      using True Finite by simp
    ultimately show ?thesis
      by blast
  next
    case False
    then have neg: "e < 0" by simp
    let ?d = "2 ^ nat (- e) :: nat"
    let ?r = "round_half_away m ?d"
    let ?k = "(if s then - 1 else 1) * int ?r"
    have near: "\<bar>real ?r - real m / real ?d\<bar> \<le> 1 / 2"
      by (rule round_half_away_near) simp
    have v: "valof (math_Round x) = of_int ?k"
      using neg Finite by simp
    have vx: "valof x = (if s then - 1 else 1) * (real m / real ?d)"
      using neg Finite by (simp add: powi_neg)
    have "\<bar>of_int ?k - valof x\<bar> = \<bar>real ?r - real m / real ?d\<bar>"
      unfolding vx by (cases s) (simp_all add: abs_minus_commute)
    then have "\<bar>of_int ?k - valof x\<bar> \<le> 1 / 2"
      using near by simp
    moreover have "float_trunc (math_Round x) = Some ?k"
      using neg Finite by simp
    ultimately show ?thesis
      using v by blast
  qed
next
  case (Inf s)
  then show ?thesis using assms by simp
next
  case NaN
  then show ?thesis using assms by simp
qed

lemma round_int_nearest:
  assumes "is_finite x"
  shows "\<exists>k::int. \<bar>of_int k - valof x\<bar> \<le> 1 / 2 \<and>
           (if - (2 ^ 63) \<le> k \<and> k < 2 ^ 63 then round_int pf x = word_of_int k
            else round_int pf x = convert_overflow pf (math_Round x))"
proof -
  obtain k :: int where k: "\<bar>of_int k - valof x\<bar> \<le> 1 / 2"
    and t: "float_trunc (math_Round x) = Some k"
    using math_Round_nearest [OF assms] by blast
  have "if - (2 ^ 63) \<le> k \<and> k < 2 ^ 63 then round_int pf x = word_of_int k
            else round_int pf x = convert_overflow pf (math_Round x)"
    using t by (simp add: round_int_def float_to_int_def)
  with k show ?thesis by blast
qed

lemma Sprintf_2f_two_decimals:
  "\<exists>h. Sprintf_2f (Finite s m e) =
          (if s then ''-'' else []) @ digits (h div 100) @ ''.'' @
          [digit_char (h mod 100 div 10), digit_char (h mod 10)] \<and>
        \<bar>real h / 100 - real m * 2 powi e\<bar> \<le> 1 / 200"
proof -
  let ?h = "scaled_half_even (m * 100) e"
  have "\<bar>real ?h - real (m * 100) * 2 powi e\<bar> \<le> 1 / 2"
    by (rule scaled_half_even_near)
  moreover have "real (m * 100) * 2 powi e = 100 * (real m * 2 powi e)"
    by simp
  ultimately have "\<bar>real ?h - 100 * (real m * 2 powi e)\<bar> \<le> 1 / 2"
    by (simp only:)
  then have "\<bar>real ?h / 100 - real m * 2 powi e\<bar> \<le> 1 / 200"
    by (simp only: abs_le_iff) (simp add: field_simps)
  moreover have "Sprintf_2f (Finite s m e) =
          (if s then ''-'' else []) @ digits (?h div 100) @ ''.'' @
          [digit_char (?h mod 100 div 10), digit_char (?h mod 10)]"
    by (simp add: Sprintf_2f_def Let_def)
  ultimately show ?thesis by blast
qed

section \<open>Evaluating concrete inputs\<close>

lemmas decimal_eval = float64_of_decimal_def float64_of_ratio_def round_pack_def pack_def
  exp_of_def below_2_53_def exp_guess_def scaled_quotient_def div_half_even_def bitlen.simps
  Let_def

lemmas format_eval = Sprintf_2f_def Sprintf_d_def scaled_half_even_def digits.simps
  digit_char_def Let_def

lemmas convert_eval = round_int_def float_to_int_def round_half_away_def elem_or_zero_def
  float_zero_def

lemmas Parse_eval = Parse_def json_Decode_def parseObservation_def parseRapidWind_def
  set_station_def rapid_wind_bucket_def New_def len_Ob_def Let_def

lemma literal_obs_decoded: "decode_numbers literal_obs = Some literal_floats"
  by (simp add: literal_obs_def literal_floats_def decimal_eval)

section \<open>The report decoder: observations\<close>

text \<open>
  C1. An \<open>obs_st\<close> payload whose (first) \<open>obs\<close> array holds at least 18 numbers decodes
  to a point with exactly the 16 named fields and the single tag \<open>station\<close>; with fewer
  than 18 numbers (or no \<open>obs\<close> array at all) \<open>Parse\<close> returns an error that wraps
  \<open>ErrInsufficientData\<close>, and no point.
\<close>

theorem C1_obs_st_decoding:
  assumes "json_type p = ''obs_st''"
    and "(case json_obs p of [] \<Rightarrow> [] | xs # rest \<Rightarrow> xs) = data"
  shows "if 18 \<le> length data
     then \<exists>lg m. Parse pf cfg (Json p) = (lg, Inr (Some m)) \<and>
            map fst (Fields m) =
              [''battery'', ''dew_point'', ''humidity'', ''illuminance'', ''p'',
               ''precipitation'', ''precipitation_type'', ''solar_radiation'',
               ''strike_count'', ''strike_distance'', ''temp'', ''uv'', ''wind_avg'',
               ''wind_direction'', ''wind_gust'', ''wind_lull''] \<and>
            length (Fields m) = 16 \<and> distinct (map fst (Fields m)) \<and>
            Tags m = [(''station'', json_serial_number p)]
     else \<exists>lg e. Parse pf cfg (Json p) = (lg, Inl e) \<and> is_ErrInsufficientData e"
  using assms
  by (simp add: Parse_def json_Decode_def parseObservation_def set_station_def New_def
      observation_fields_def Let_def)

theorem C1_obs_st_decoding_witness:
  "(\<exists>lg m. Parse test_platform test_config (Json (obs_st_payload literal_floats)) =
              (lg, Inr (Some m)) \<and>
            map fst (Fields m) =
              [''battery'', ''dew_point'', ''humidity'', ''illuminance'', ''p'',
               ''precipitation'', ''precipitation_type'', ''solar_radiation'',
               ''strike_count'', ''strike_distance'', ''temp'', ''uv'', ''wind_avg'',
               ''wind_direction'', ''wind_gust'', ''wind_lull''] \<and>
            length (Fields m) = 16 \<and> distinct (map fst (Fields m)) \<and>
            Tags m = [(''station'', ''ST-00000512'')]) \<and>
   (\<exists>lg e. Parse test_platform test_config (Json (obs_st_payload (take 17 literal_floats))) =
              (lg, Inl e) \<and> is_ErrInsufficientData e)"
  using
    C1_obs_st_decoding [of "obs_st_payload literal_floats" literal_floats
      test_platform test_config]
    C1_obs_st_decoding [of "obs_st_payload (take 17 literal_floats)" "take 17 literal_floats"
      test_platform test_config]
  by (simp add: obs_st_payload_def literal_floats_def)

section \<open>The report decoder: rapid wind\<close>

text \<open>
  C4. A \<open>rapid_wind\<close> payload decodes to a point exactly when \<open>Rapid_Wind\<close> is set;
  otherwise \<open>Parse\<close> returns \<open>(nil, nil)\<close>. The point has the two fields
  \<open>rapid_wind_speed\<close> and \<open>rapid_wind_direction\<close>, and its bucket is
  \<open>Influx_Bucket_Rapid_Wind\<close> when that is configured (not empty), the primary bucket
  otherwise.
\<close>

theorem C4_rapid_wind_decoding:
  assumes "json_type p = ''rapid_wind''"
  shows "if Rapid_Wind cfg
     then \<exists>lg m. Parse pf cfg (Json p) = (lg, Inr (Some m)) \<and>
            map fst (Fields m) = [''rapid_wind_speed'', ''rapid_wind_direction''] \<and>
            Bucket m = (if Influx_Bucket_Rapid_Wind cfg \<noteq> []
                        then Influx_Bucket_Rapid_Wind cfg else Influx_Bucket cfg)
     else Parse pf cfg (Json p) = ([], Inr None)"
  using assms
  by (simp add: Parse_def json_Decode_def parseRapidWind_def set_station_def New_def
      rapid_wind_bucket_def len_Ob_def Let_def)

theorem C4_rapid_wind_decoding_witness:
  "(\<exists>lg m. Parse test_platform
              (test_config\<lparr>Rapid_Wind := True, Influx_Bucket_Rapid_Wind := ''wind-bucket''\<rparr>)
              (Json short_rapid_wind) = (lg, Inr (Some m)) \<and>
            map fst (Fields m) = [''rapid_wind_speed'', ''rapid_wind_direction''] \<and>
            Bucket m = ''wind-bucket'') \<and>
   Parse test_platform test_config (Json short_rapid_wind) = ([], Inr None)"
  using
    C4_rapid_wind_decoding [of short_rapid_wind
      "test_config\<lparr>Rapid_Wind := True, Influx_Bucket_Rapid_Wind := ''wind-bucket''\<rparr>"
      test_platform]
    C4_rapid_wind_decoding [of short_rapid_wind test_config test_platform]
  by (simp add: short_rapid_wind_def test_config_def)

text \<open>
  C5. The claim: a \<open>rapid_wind\<close> payload with fewer than 3 numbers in \<open>ob\<close> fails with
  \<open>ErrInsufficientData\<close>. The code: \<open>Ob\<close> is a Go array of length 3, the decoder pads the
  missing numbers with zero, and the length check of \<open>parseRapidWind\<close> never fires: the
  payload \<open>ob = [1500000000, 2.5]\<close> yields a point whose wind direction is the padded 0.
\<close>

theorem C5_short_rapid_wind_decodes:
  "Parse test_platform (test_config\<lparr>Rapid_Wind := True\<rparr>) (Json short_rapid_wind) =
     ([], Inr (Some \<lparr>Name = ''weather'', Bucket = ''test-bucket'',
                     Tags = [(''station'', ''ST-00000512'')],
                     Fields = [(''rapid_wind_speed'', ''2.50''),
                               (''rapid_wind_direction'', ''0'')],
                     Timestamp = 1500000000\<rparr>))"
  by (simp add: Parse_eval test_config_def test_platform_def short_rapid_wind_def
      rapidWind_of_def convert_eval format_eval)

section \<open>Precipitation types\<close>

lemma PrecipType_String_cases:
  "PrecipType_String p =
     (if sint p < 0 then Inl (Panic_runtime_error ''index out of range'')
      else if sint p = 0 then Inr ''none''
      else if sint p = 1 then Inr ''rain''
      else if sint p = 2 then Inr ''hail''
      else if sint p = 3 then Inr ''rain+hail''
      else Inr ''unknown'')"
proof -
  have "sint p < 0 \<or> sint p = 0 \<or> sint p = 1 \<or> sint p = 2 \<or> sint p = 3 \<or> 4 \<le> sint p"
    by arith
  then show ?thesis
    by (auto simp: PrecipType_String_def types_def)
qed

text \<open>
  C10. The claim: the codes 0 to 3 are shown as none, rain, hail and rain+hail, every
  other code as unknown. The code: a code below zero passes the only check
  (\<open>int(p) < len(types)\<close>) and indexes the slice, which panics.
\<close>

theorem C10_negative_code_panics:
  "PrecipType_String (- 1) = Inl (Panic_runtime_error ''index out of range'')"
  by (simp add: PrecipType_String_def types_def)

section \<open>The report decoder: rounding and formatting\<close>

lemma Parse_obs_st_fields:
  assumes "json_type p = ''obs_st''" and "json_obs p = data # rest" and "18 \<le> length data"
  shows "\<exists>lg m. Parse pf cfg (Json p) = (lg, Inr (Some m)) \<and>
     Timestamp m = float_to_int (convert_overflow pf) (data ! 0) \<and>
     Fields m =
       [(''battery'', Sprintf_2f (data ! 16)),
        (''dew_point'', Sprintf_2f (fst (dewpoint_Calculate pf (data ! 7) (data ! 8)))),
        (''humidity'', Sprintf_2f (data ! 8)),
        (''illuminance'', Sprintf_d (round_int pf (data ! 9))),
        (''p'', Sprintf_2f (data ! 6)),
        (''precipitation'', Sprintf_2f (data ! 12)),
        (''precipitation_type'', Sprintf_d (round_int pf (data ! 13))),
        (''solar_radiation'', Sprintf_d (round_int pf (data ! 11))),
        (''strike_count'', Sprintf_d (round_int pf (data ! 15))),
        (''strike_distance'', Sprintf_d (round_int pf (data ! 14))),
        (''temp'', Sprintf_2f (data ! 7)),
        (''uv'', Sprintf_2f (data ! 10)),
        (''wind_avg'', Sprintf_2f (data ! 2)),
        (''wind_direction'', Sprintf_d (round_int pf (data ! 4))),
        (''wind_gust'', Sprintf_2f (data ! 3)),
        (''wind_lull'', Sprintf_2f (data ! 1))]"
  using assms
  by (simp add: Parse_def json_Decode_def parseObservation_def set_station_def New_def
      observation_fields_def observation_of_def Let_def)

lemma literal_fields:
  "Sprintf_2f (literal_floats ! 2) = ''1.20''"
  "Sprintf_2f (literal_floats ! 7) = ''22.50''"
  "Sprintf_2f (literal_floats ! 8) = ''55.00''"
  "Sprintf_2f (literal_floats ! 16) = ''12.60''"
  "Sprintf_d (round_int pf (literal_floats ! 4)) = ''180''"
  "float_to_int (convert_overflow pf) (literal_floats ! 0) = 1500000000"
  by (simp_all add: literal_floats_def format_eval convert_eval)

lemma literal_point:
  "\<exists>lg m. Parse pf cfg (Json (obs_st_payload literal_floats)) = (lg, Inr (Some m)) \<and>
     map_of (Fields m) ''wind_avg'' = Some ''1.20'' \<and>
     map_of (Fields m) ''wind_direction'' = Some ''180'' \<and>
     map_of (Fields m) ''temp'' = Some ''22.50'' \<and>
     map_of (Fields m) ''humidity'' = Some ''55.00'' \<and>
     map_of (Fields m) ''battery'' = Some ''12.60'' \<and>
     Timestamp m = 1500000000"
proof -
  have "json_type (obs_st_payload literal_floats) = ''obs_st''"
    and "json_obs (obs_st_payload literal_floats) = literal_floats # []"
    and "18 \<le> length literal_floats"
    by (simp_all add: obs_st_payload_def literal_floats_def)
  from Parse_obs_st_fields [OF this, of pf cfg]
  show ?thesis
    by (auto simp: literal_fields)
qed


text \<open>
  C7. For an \<open>obs_st\<close> report of at least 18 numbers, the fields of the point are the
  slots formatted as follows: wind direction, illuminance, solar radiation, precipitation
  type, strike distance and strike count are rounded to an integer and printed with
  \<open>%d\<close> (the wind sample interval and the reporting interval are rounded too, and
  not stored); wind lull, average and gust, pressure, temperature, humidity, UV,
  precipitation and battery are printed with \<open>%.2f\<close>; the timestamp is the first slot as
  an int64. Rounding gives an integer within one half of the slot's value, and \<open>%.2f\<close>
  a number of hundredths within half a hundredth of it. The literal array
  [1500000000,0.5,1.2,2.0,180,3,1013.2,22.5,55.0,1000,3.1,200,0.0,0,0,0,12.6,1] decodes to
  wind_avg 1.20, wind_direction 180, temp 22.50, humidity 55.00, battery 12.60 and the
  timestamp 1500000000.
\<close>

theorem C7_rounding_and_formatting:
  "(json_type p = ''obs_st'' \<and> json_obs p = data # rest \<and> 18 \<le> length data \<longrightarrow>
      (\<exists>lg m. Parse pf cfg (Json p) = (lg, Inr (Some m)) \<and>
         Timestamp m = float_to_int (convert_overflow pf) (data ! 0) \<and>
         Fields m =
           [(''battery'', Sprintf_2f (data ! 16)),
            (''dew_point'', Sprintf_2f (fst (dewpoint_Calculate pf (data ! 7) (data ! 8)))),
            (''humidity'', Sprintf_2f (data ! 8)),
            (''illuminance'', Sprintf_d (round_int pf (data ! 9))),
            (''p'', Sprintf_2f (data ! 6)),
            (''precipitation'', Sprintf_2f (data ! 12)),
            (''precipitation_type'', Sprintf_d (round_int pf (data ! 13))),
            (''solar_radiation'', Sprintf_d (round_int pf (data ! 11))),
            (''strike_count'', Sprintf_d (round_int pf (data ! 15))),
            (''strike_distance'', Sprintf_d (round_int pf (data ! 14))),
            (''temp'', Sprintf_2f (data ! 7)),
            (''uv'', Sprintf_2f (data ! 10)),
            (''wind_avg'', Sprintf_2f (data ! 2)),
            (''wind_direction'', Sprintf_d (round_int pf (data ! 4))),
            (''wind_gust'', Sprintf_2f (data ! 3)),
            (''wind_lull'', Sprintf_2f (data ! 1))]) \<and>
      Obs_WindSampleInterval (observation_of pf data) = round_int pf (data ! 5) \<and>
      Obs_Interval (observation_of pf data) = round_int pf (data ! 17)) \<and>
   (is_finite x \<longrightarrow>
      (\<exists>k::int. \<bar>of_int k - valof x\<bar> \<le> 1 / 2 \<and>
         (if - (2 ^ 63) \<le> k \<and> k < 2 ^ 63 then round_int pf x = word_of_int k
          else round_int pf x = convert_overflow pf (math_Round x)))) \<and>
   (\<exists>h. Sprintf_2f (Finite s n e) =
           (if s then ''-'' else []) @ digits (h div 100) @ ''.'' @
           [digit_char (h mod 100 div 10), digit_char (h mod 10)] \<and>
         \<bar>real h / 100 - real n * 2 powi e\<bar> \<le> 1 / 200) \<and>
   decode_numbers literal_obs = Some literal_floats \<and>
   (\<exists>lg m. Parse pf cfg (Json (obs_st_payload literal_floats)) = (lg, Inr (Some m)) \<and>
      map_of (Fields m) ''wind_avg'' = Some ''1.20'' \<and>
      map_of (Fields m) ''wind_direction'' = Some ''180'' \<and>
      map_of (Fields m) ''temp'' = Some ''22.50'' \<and>
      map_of (Fields m) ''humidity'' = Some ''55.00'' \<and>
      map_of (Fields m) ''battery'' = Some ''12.60'' \<and>
      Timestamp m = 1500000000)"
proof (intro conjI impI)
  assume a: "json_type p = ''obs_st'' \<and> json_obs p = data # rest \<and> 18 \<le> length data"
  then show "\<exists>lg m. Parse pf cfg (Json p) = (lg, Inr (Some m)) \<and>
         Timestamp m = float_to_int (convert_overflow pf) (data ! 0) \<and>
         Fields m =
           [(''battery'', Sprintf_2f (data ! 16)),
            (''dew_point'', Sprintf_2f (fst (dewpoint_Calculate pf (data ! 7) (data ! 8)))),
            (''humidity'', Sprintf_2f (data ! 8)),
            (''illuminance'', Sprintf_d (round_int pf (data ! 9))),
            (''p'', Sprintf_2f (data ! 6)),
            (''precipitation'', Sprintf_2f (data ! 12)),
            (''precipitation_type'', Sprintf_d (round_int pf (data ! 13))),
            (''solar_radiation'', Sprintf_d (round_int pf (data ! 11))),
            (''strike_count'', Sprintf_d (round_int pf (data ! 15))),
            (''strike_distance'', Sprintf_d (round_int pf (data ! 14))),
            (''temp'', Sprintf_2f (data ! 7)),
            (''uv'', Sprintf_2f (data ! 10)),
            (''wind_avg'', Sprintf_2f (data ! 2)),
            (''wind_direction'', Sprintf_d (round_int pf (data ! 4))),
            (''wind_gust'', Sprintf_2f (data ! 3)),
            (''wind_lull'', Sprintf_2f (data ! 1))]"
    using Parse_obs_st_fields [of p data rest pf cfg] by blast
next
  show "Obs_WindSampleInterval (observation_of pf data) = round_int pf (data ! 5)"
    by (simp add: observation_of_def)
next
  show "Obs_Interval (observation_of pf data) = round_int pf (data ! 17)"
    by (simp add: observation_of_def)
next
  assume "is_finite x"
  then show "\<exists>k::int. \<bar>of_int k - valof x\<bar> \<le> 1 / 2 \<and>
         (if - (2 ^ 63) \<le> k \<and> k < 2 ^ 63 then round_int pf x = word_of_int k
          else round_int pf x = convert_overflow pf (math_Round x))"
    by (rule round_int_nearest)
next
  show "\<exists>h. Sprintf_2f (Finite s n e) =
           (if s then ''-'' else []) @ digits (h div 100) @ ''.'' @
           [digit_char (h mod 100 div 10), digit_char (h mod 10)] \<and>
         \<bar>real h / 100 - real n * 2 powi e\<bar> \<le> 1 / 200"
    by (rule Sprintf_2f_two_decimals)
next
  show "decode_numbers literal_obs = Some literal_floats"
    by (rule literal_obs_decoded)
next
  show "\<exists>lg m. Parse pf cfg (Json (obs_st_payload literal_floats)) = (lg, Inr (Some m)) \<and>
      map_of (Fields m) ''wind_avg'' = Some ''1.20'' \<and>
      map_of (Fields m) ''wind_direction'' = Some ''180'' \<and>
      map_of (Fields m) ''temp'' = Some ''22.50'' \<and>
      map_of (Fields m) ''humidity'' = Some ''55.00'' \<and>
      map_of (Fields m) ''battery'' = Some ''12.60'' \<and>
      Timestamp m = 1500000000"
    by (rule literal_point)
qed

theorem C7_rounding_and_formatting_witness:
  "(\<exists>lg m. Parse test_platform test_config (Json (obs_st_payload literal_floats)) =
       (lg, Inr (Some m)) \<and>
     Timestamp m = 1500000000 \<and>
     Fields m =
       [(''battery'', ''12.60''), (''dew_point'', ''0.00''), (''humidity'', ''55.00''),
        (''illuminance'', ''1000''), (''p'', ''1013.20''), (''precipitation'', ''0.00''),
        (''precipitation_type'', ''0''), (''solar_radiation'', ''200''),
        (''strike_count'', ''0''), (''strike_distance'', ''0''), (''temp'', ''22.50''),
        (''uv'', ''3.10''), (''wind_avg'', ''1.20''), (''wind_direction'', ''180''),
        (''wind_gust'', ''2.00''), (''wind_lull'', ''0.50'')]) \<and>
   (\<exists>k::int. \<bar>of_int k - valof (Finite False 5 (- 1))\<bar> \<le> 1 / 2 \<and>
      round_int test_platform (Finite False 5 (- 1)) = word_of_int k)"
proof -
  note t = C7_rounding_and_formatting [of "obs_st_payload literal_floats" literal_floats "[]"
      test_platform test_config "Finite False 5 (- 1)" False 0 0]
  have h: "json_type (obs_st_payload literal_floats) = ''obs_st'' \<and>
      json_obs (obs_st_payload literal_floats) = literal_floats # [] \<and>
      18 \<le> length literal_floats"
    by (simp add: obs_st_payload_def literal_floats_def)
  from t h obtain lg m
    where p: "Parse test_platform test_config (Json (obs_st_payload literal_floats)) =
        (lg, Inr (Some m))"
      and ts: "Timestamp m = float_to_int (convert_overflow test_platform) (literal_floats ! 0)"
      and fs: "Fields m =
           [(''battery'', Sprintf_2f (literal_floats ! 16)),
            (''dew_point'', Sprintf_2f (fst (dewpoint_Calculate test_platform
               (literal_floats ! 7) (literal_floats ! 8)))),
            (''humidity'', Sprintf_2f (literal_floats ! 8)),
            (''illuminance'', Sprintf_d (round_int test_platform (literal_floats ! 9))),
            (''p'', Sprintf_2f (literal_floats ! 6)),
            (''precipitation'', Sprintf_2f (literal_floats ! 12)),
            (''precipitation_type'', Sprintf_d (round_int test_platform (literal_floats ! 13))),
            (''solar_radiation'', Sprintf_d (round_int test_platform (literal_floats ! 11))),
            (''strike_count'', Sprintf_d (round_int test_platform (literal_floats ! 15))),
            (''strike_distance'', Sprintf_d (round_int test_platform (literal_floats ! 14))),
            (''temp'', Sprintf_2f (literal_floats ! 7)),
            (''uv'', Sprintf_2f (literal_floats ! 10)),
            (''wind_avg'', Sprintf_2f (literal_floats ! 2)),
            (''wind_direction'', Sprintf_d (round_int test_platform (literal_floats ! 4))),
            (''wind_gust'', Sprintf_2f (literal_floats ! 3)),
            (''wind_lull'', Sprintf_2f (literal_floats ! 1))]"
    by blast
  have ts': "Timestamp m = 1500000000"
    unfolding ts by (simp add: literal_floats_def test_platform_def convert_eval)
  have fs': "Fields m =
       [(''battery'', ''12.60''), (''dew_point'', ''0.00''), (''humidity'', ''55.00''),
        (''illuminance'', ''1000''), (''p'', ''1013.20''), (''precipitation'', ''0.00''),
        (''precipitation_type'', ''0''), (''solar_radiation'', ''200''),
        (''strike_count'', ''0''), (''strike_distance'', ''0''), (''temp'', ''22.50''),
        (''uv'', ''3.10''), (''wind_avg'', ''1.20''), (''wind_direction'', ''180''),
        (''wind_gust'', ''2.00''), (''wind_lull'', ''0.50'')]"
    unfolding fs
    by (simp add: literal_floats_def test_platform_def format_eval convert_eval)
  have "is_finite (Finite False 5 (- 1))"
    by simp
  with t have r: "\<exists>k::int. \<bar>of_int k - valof (Finite False 5 (- 1))\<bar> \<le> 1 / 2 \<and>
      (if - (2 ^ 63) \<le> k \<and> k < 2 ^ 63
       then round_int test_platform (Finite False 5 (- 1)) = word_of_int k
       else round_int test_platform (Finite False 5 (- 1)) =
            convert_overflow test_platform (math_Round (Finite False 5 (- 1))))"
    by blast
  then obtain k :: int
    where kb: "\<bar>of_int k - valof (Finite False 5 (- 1))\<bar> \<le> 1 / 2"
      and ki: "if - (2 ^ 63) \<le> k \<and> k < 2 ^ 63
       then round_int test_platform (Finite False 5 (- 1)) = word_of_int k
       else round_int test_platform (Finite False 5 (- 1)) =
            convert_overflow test_platform (math_Round (Finite False 5 (- 1)))"
    by blast
  have "valof (Finite False 5 (- 1)) = 5 / 2"
    by simp
  with kb have "\<bar>real_of_int k - 5 / 2\<bar> \<le> 1 / 2"
    by (simp only:)
  then have "2 \<le> k" and "k \<le> 3"
    by linarith+
  with ki have "round_int test_platform (Finite False 5 (- 1)) = word_of_int k"
    by simp
  with kb have r': "\<exists>k::int. \<bar>of_int k - valof (Finite False 5 (- 1))\<bar> \<le> 1 / 2 \<and>
      round_int test_platform (Finite False 5 (- 1)) = word_of_int k"
    by blast
  from p ts' fs' r' show ?thesis
    by blast
qed

end
